theory Spec2Isabelle
  imports Main
begin

section \<open>Strings of the script\<close>

text \<open>
  A JavaScript string is a sequence of UTF-16 code units. The model reads a
  \<^typ>\<open>string\<close> as the sequence of its code units below 256 (the Latin-1 range), one
  \<^typ>\<open>char\<close> per code unit. The three string methods the script calls are written out
  for that range: \<^verbatim>\<open>trim\<close>, \<^verbatim>\<open>toLowerCase\<close> and \<^verbatim>\<open>includes\<close>.
\<close>

definition isWhiteSpace :: "char \<Rightarrow> bool" where
  \<comment> \<open>WhiteSpace and LineTerminator of ECMAScript below 256: TAB, LF, VT, FF, CR, SP, NBSP.\<close>
  "isWhiteSpace c = (c \<in> set [CHR 0x09, CHR 0x0A, CHR 0x0B, CHR 0x0C, CHR 0x0D, CHR 0x20, CHR 0xA0])"

definition trim :: "string \<Rightarrow> string" where
  "trim s = rev (dropWhile isWhiteSpace (rev (dropWhile isWhiteSpace s)))"

definition toLowerChar :: "char \<Rightarrow> char" where
  \<comment> \<open>A-Z, and the Latin-1 capitals U+00C0..U+00DE without the multiplication sign U+00D7.\<close>
  "toLowerChar c =
     (let n = (of_char c :: nat)
      in if (65 \<le> n \<and> n \<le> 90) \<or> (192 \<le> n \<and> n \<le> 222 \<and> n \<noteq> 215)
         then char_of (n + 32) else c)"

definition toLowerCase :: "string \<Rightarrow> string" where
  "toLowerCase s = map toLowerChar s"

primrec includes_str :: "string \<Rightarrow> string \<Rightarrow> bool" where
  \<comment> \<open>\<^verbatim>\<open>s.includes(t)\<close>: \<open>t\<close> occurs in \<open>s\<close> as a contiguous run.\<close>
  "includes_str [] t = (t = [])"
| "includes_str (c # cs) t = (take (length t) (c # cs) = t \<or> includes_str cs t)"

definition digit36 :: "nat \<Rightarrow> char" where
  "digit36 d = ''0123456789abcdefghijklmnopqrstuvwxyz'' ! d"

fun toString36 :: "nat \<Rightarrow> string" where
  \<comment> \<open>\<^verbatim>\<open>n.toString(36)\<close> of a non-negative integer.\<close>
  "toString36 n = (if n < 36 then [digit36 n] else toString36 (n div 36) @ [digit36 (n mod 36)])"

section \<open>Posts\<close>

text \<open>
  The object literal of \<^verbatim>\<open>handlePostSubmit\<close>: five string properties, in this order.
  The field \<^verbatim>\<open>id\<close> is named \<open>post_id\<close> here, \<open>id\<close> being the identity function of HOL.
\<close>

record post =
  post_id :: string
  title :: string
  category :: string
  content :: string
  createdAt :: string

section \<open>JSON text\<close>


definition hexdigit :: "nat \<Rightarrow> char" where
  "hexdigit d = ''0123456789abcdef'' ! d"

definition quote_char :: "char \<Rightarrow> string" where
  "quote_char c =
     (if c = CHR 0x22 then [CHR 0x5C, CHR 0x22]
      else if c = CHR 0x5C then [CHR 0x5C, CHR 0x5C]
      else if c = CHR 0x08 then [CHR 0x5C, CHR ''b'']
      else if c = CHR 0x0C then [CHR 0x5C, CHR ''f'']
      else if c = CHR 0x0A then [CHR 0x5C, CHR ''n'']
      else if c = CHR 0x0D then [CHR 0x5C, CHR ''r'']
      else if c = CHR 0x09 then [CHR 0x5C, CHR ''t'']
      else if (of_char c :: nat) < 32
        then [CHR 0x5C, CHR ''u'', CHR ''0'', CHR ''0'',
              hexdigit ((of_char c :: nat) div 16), hexdigit ((of_char c :: nat) mod 16)]
      else [c])"

definition quote :: "string \<Rightarrow> string" where
  "quote s = [CHR 0x22] @ concat (map quote_char s) @ [CHR 0x22]"

definition stringify_post :: "post \<Rightarrow> string" where
  "stringify_post p =
     ''{'' @ quote ''id'' @ '':'' @ quote (post_id p) @
     '','' @ quote ''title'' @ '':'' @ quote (title p) @
     '','' @ quote ''category'' @ '':'' @ quote (category p) @
     '','' @ quote ''content'' @ '':'' @ quote (content p) @
     '','' @ quote ''createdAt'' @ '':'' @ quote (createdAt p) @ ''}''"

fun join_comma :: "string list \<Rightarrow> string" where
  "join_comma [] = []"
| "join_comma [x] = x"
| "join_comma (x # y # ys) = x @ '','' @ join_comma (y # ys)"

definition JSON_stringify :: "post list \<Rightarrow> string" where
  "JSON_stringify ps = ''['' @ join_comma (map stringify_post ps) @ '']''"

subsection \<open>The parser\<close>







definition is_digit :: "char \<Rightarrow> bool" where
  "is_digit c = (c \<in> set ''0123456789'')"



















section \<open>The page\<close>

text \<open>
  The global variables of the script, and of the page what the functions below write:
  the entries of \<^verbatim>\<open>localStorage\<close>, the three lists drawn from the posts, the
  notifications shown, the two submit buttons, and the callbacks waiting in
  \<^verbatim>\<open>setTimeout\<close>. An article, a list item or a notification is the data it is drawn from;
  the forms, the editor widgets, the theme and the animations are left out.
\<close>

datatype container =
    Articles "post list" \<comment> \<open>one article per post, in this order\<close>
  | No_posts_available
  | No_posts_found string

datatype count =
    Count nat
  | Not_a_number \<comment> \<open>a string: the text of an inherited property followed by 1s\<close>

datatype timer =
    Publish string string string \<comment> \<open>the callback of \<^verbatim>\<open>handlePostSubmit\<close> with its title, category, content\<close>
  | Update string string string string \<comment> \<open>the callback of \<^verbatim>\<open>handleEditSubmit\<close> with its postId, title, category, content\<close>

record blog =
  posts :: "post list"
  postIdToDelete :: "string option"
  localStorage :: "string \<Rightarrow> string option"
  postsContainer :: container
  categoriesList :: "(string \<times> count) list" \<comment> \<open>per item: its \<^verbatim>\<open>data-category\<close> and the count shown\<close>
  recentPostsList :: "post list"
  notifications :: "(string \<times> string) list" \<comment> \<open>message and type, in the order shown\<close>
  submitBtn_disabled :: bool
  updateBtn_disabled :: bool
  timers :: "timer list"

text \<open>What the clock and the random generator answer when a callback runs.\<close>

record env =
  date_now :: nat \<comment> \<open>\<^verbatim>\<open>Date.now()\<close>\<close>
  random36 :: string \<comment> \<open>\<^verbatim>\<open>Math.random().toString(36)\<close>\<close>
  date_iso :: string \<comment> \<open>\<^verbatim>\<open>new Date().toISOString()\<close>\<close>

definition generateUniqueId :: "env \<Rightarrow> string" where
  "generateUniqueId e = toString36 (date_now e) @ take 5 (drop 2 (random36 e))"

definition showNotification :: "string \<Rightarrow> string \<Rightarrow> blog \<Rightarrow> blog" where
  "showNotification message type s = s\<lparr>notifications := notifications s @ [(message, type)]\<rparr>"

definition displayPosts :: "post list \<Rightarrow> blog \<Rightarrow> blog" where
  "displayPosts postsToDisplay s =
     s\<lparr>postsContainer := (if postsToDisplay = [] then No_posts_available else Articles postsToDisplay)\<rparr>"


subsection \<open>The counting object of updateCategoriesList\<close>

text \<open>
  \<^verbatim>\<open>categories\<close> is a plain object: its own properties in the order of their creation,
  and behind them the properties it inherits from \<^verbatim>\<open>Object.prototype\<close>, which
  \<^verbatim>\<open>categories[post.category]\<close> reads too. \<^verbatim>\<open>Object.entries\<close> lists the own properties whose
  key is an array index first, in ascending order, then the others in the order of their creation.
\<close>

definition object_prototype_keys :: "string list" where
  "object_prototype_keys =
     [''constructor'', ''__defineGetter__'', ''__defineSetter__'', ''hasOwnProperty'',
      ''__lookupGetter__'', ''__lookupSetter__'', ''isPrototypeOf'', ''propertyIsEnumerable'',
      ''toString'', ''valueOf'', ''__proto__'', ''toLocaleString'']"

primrec set_property :: "string \<Rightarrow> count \<Rightarrow> (string \<times> count) list \<Rightarrow> (string \<times> count) list" where
  "set_property k v [] = [(k, v)]"
| "set_property k v (e # es) = (if fst e = k then (k, v) # es else e # set_property k v es)"

definition count_post :: "(string \<times> count) list \<Rightarrow> post \<Rightarrow> (string \<times> count) list" where
  \<comment> \<open>\<^verbatim>\<open>categories[post.category] = (categories[post.category] || 0) + 1\<close>\<close>
  "count_post categories p =
     (case map_of categories (category p) of
        Some (Count n) \<Rightarrow> set_property (category p) (Count (n + 1)) categories
      | Some Not_a_number \<Rightarrow> set_property (category p) Not_a_number categories
      | None \<Rightarrow>
          if category p = ''__proto__'' then categories
          else if category p \<in> set object_prototype_keys
            then set_property (category p) Not_a_number categories
          else set_property (category p) (Count 1) categories)"

definition index_value :: "string \<Rightarrow> nat" where
  "index_value k = foldl (\<lambda>n c. 10 * n + (of_char c - 48)) 0 k"

definition is_array_index :: "string \<Rightarrow> bool" where
  \<comment> \<open>a canonical numeric string of an integer from 0 to \<open>2\<^sup>3\<^sup>2 - 2\<close>\<close>
  "is_array_index k =
     (k \<noteq> [] \<and> list_all is_digit k \<and> (if hd k = CHR ''0'' then k = ''0'' else True)
      \<and> index_value k \<le> 4294967294)"

definition Object_entries :: "(string \<times> count) list \<Rightarrow> (string \<times> count) list" where
  "Object_entries obj =
     sort_key (\<lambda>e. index_value (fst e)) (filter (\<lambda>e. is_array_index (fst e)) obj)
     @ filter (\<lambda>e. \<not> is_array_index (fst e)) obj"

definition updateCategoriesList :: "blog \<Rightarrow> blog" where
  "updateCategoriesList s =
     (let categories = foldl count_post [] (posts s);
          items = Object_entries categories
      in s\<lparr>categoriesList :=
             (if length (map fst (Object_entries categories)) > 0
              then (''all'', Count (length (posts s))) # items else items)\<rparr>)"

definition updateRecentPostsList :: "blog \<Rightarrow> blog" where
  "updateRecentPostsList s = s\<lparr>recentPostsList := take 5 (posts s)\<rparr>"

subsection \<open>Saving and loading\<close>

definition savePosts :: "blog \<Rightarrow> blog" where
  "savePosts s =
     updateRecentPostsList (updateCategoriesList (displayPosts (posts s)
       (s\<lparr>localStorage := (localStorage s)(''blogPosts'' \<mapsto> JSON_stringify (posts s))\<rparr>)))"



subsection \<open>Creating, editing, deleting, searching\<close>

definition handlePostSubmit :: "string \<Rightarrow> string \<Rightarrow> string \<Rightarrow> blog \<Rightarrow> blog" where
  \<comment> \<open>the arguments: the values of \<^verbatim>\<open>post-title\<close>, \<^verbatim>\<open>post-category\<close> and of the content editor\<close>
  "handlePostSubmit title_value category_value content_value s =
     (let title' = trim title_value;
          category' = category_value;
          content' = trim content_value
      in if title' = [] \<or> category' = [] \<or> content' = []
         then showNotification ''Please fill all fields'' ''error'' s
         else s\<lparr>submitBtn_disabled := True,
                timers := timers s @ [Publish title' category' content']\<rparr>)"

definition publish :: "env \<Rightarrow> string \<Rightarrow> string \<Rightarrow> string \<Rightarrow> blog \<Rightarrow> blog" where
  \<comment> \<open>the callback \<^verbatim>\<open>handlePostSubmit\<close> gives to \<^verbatim>\<open>setTimeout\<close>\<close>
  "publish e title' category' content' s =
     (let newPost = \<lparr>post_id = generateUniqueId e, title = title', category = category',
                      content = content', createdAt = date_iso e\<rparr>;
          s1 = s\<lparr>posts := newPost # posts s\<rparr>;
          s2 = savePosts s1;
          s3 = s2\<lparr>submitBtn_disabled := False\<rparr>
      in showNotification ''Post published successfully!'' ''success'' s3)"

primrec findIndex :: "('a \<Rightarrow> bool) \<Rightarrow> 'a list \<Rightarrow> nat option" where
  \<comment> \<open>\<open>None\<close> is the \<open>-1\<close> of \<^verbatim>\<open>Array.prototype.findIndex\<close>\<close>
  "findIndex P [] = None"
| "findIndex P (x # xs) = (if P x then Some 0 else map_option Suc (findIndex P xs))"

definition handleEditSubmit :: "string \<Rightarrow> string \<Rightarrow> string \<Rightarrow> string \<Rightarrow> blog \<Rightarrow> blog" where
  "handleEditSubmit postId title_value category_value content_value s =
     (let title' = trim title_value;
          category' = category_value;
          content' = trim content_value
      in if title' = [] \<or> category' = [] \<or> content' = []
         then showNotification ''Please fill all fields'' ''error'' s
         else s\<lparr>updateBtn_disabled := True,
                timers := timers s @ [Update postId title' category' content']\<rparr>)"

definition update :: "string \<Rightarrow> string \<Rightarrow> string \<Rightarrow> string \<Rightarrow> blog \<Rightarrow> blog" where
  \<comment> \<open>the callback \<^verbatim>\<open>handleEditSubmit\<close> gives to \<^verbatim>\<open>setTimeout\<close>\<close>
  "update postId title' category' content' s =
     (case findIndex (\<lambda>p. post_id p = postId) (posts s) of
        None \<Rightarrow> s
      | Some postIndex \<Rightarrow>
          (let s1 = s\<lparr>posts := (posts s)[postIndex :=
                        (posts s ! postIndex)\<lparr>title := title', category := category', content := content'\<rparr>]\<rparr>;
               s2 = savePosts s1;
               s3 = s2\<lparr>updateBtn_disabled := False\<rparr>
           in showNotification ''Post updated successfully!'' ''success'' s3))"

definition deletePost :: "string \<Rightarrow> blog \<Rightarrow> blog" where
  "deletePost postId s =
     showNotification ''Post deleted successfully!'' ''success''
       (savePosts (s\<lparr>posts := filter (\<lambda>post. post_id post \<noteq> postId) (posts s)\<rparr>))"

definition openDeleteConfirmation :: "string \<Rightarrow> blog \<Rightarrow> blog" where
  "openDeleteConfirmation postId s = s\<lparr>postIdToDelete := Some postId\<rparr>"

definition confirmDelete :: "blog \<Rightarrow> blog" where
  \<comment> \<open>the click listener of \<^verbatim>\<open>confirm-delete\<close>; the empty string is falsy\<close>
  "confirmDelete s =
     (case postIdToDelete s of
        None \<Rightarrow> s
      | Some postId \<Rightarrow> if postId = [] then s else (deletePost postId s)\<lparr>postIdToDelete := None\<rparr>)"

definition cancelDelete :: "blog \<Rightarrow> blog" where
  "cancelDelete s = s\<lparr>postIdToDelete := None\<rparr>"

definition searchPosts :: "string \<Rightarrow> blog \<Rightarrow> blog" where
  \<comment> \<open>the argument: the value of \<^verbatim>\<open>search-input\<close>\<close>
  "searchPosts searchInput_value s =
     (let searchTerm = toLowerCase (trim searchInput_value)
      in if searchTerm = [] then displayPosts (posts s) s
         else
           (let filteredPosts =
                  filter (\<lambda>post. includes_str (toLowerCase (title post)) searchTerm \<or>
                                  includes_str (toLowerCase (content post)) searchTerm) (posts s)
            in if length filteredPosts = 0 then s\<lparr>postsContainer := No_posts_found searchTerm\<rparr>
               else displayPosts filteredPosts s))"

subsection \<open>Events\<close>

text \<open>
  The page runs one listener or one callback at a time, each to its end. The callbacks
  of \<^verbatim>\<open>setTimeout\<close> all wait 1000 ms, so they run in the order they were set.
\<close>

datatype event =
    Submit_post string string string
  | Submit_edit string string string string
  | Open_delete string
  | Confirm_delete
  | Cancel_delete
  | Search string
  | Timeout env

fun fire :: "env \<Rightarrow> timer \<Rightarrow> blog \<Rightarrow> blog" where
  "fire e (Publish title' category' content') s = publish e title' category' content' s"
| "fire e (Update postId title' category' content') s = update postId title' category' content' s"

fun dispatch :: "blog \<Rightarrow> event \<Rightarrow> blog" where
  "dispatch s (Submit_post tv cv xv) = handlePostSubmit tv cv xv s"
| "dispatch s (Submit_edit postId tv cv xv) = handleEditSubmit postId tv cv xv s"
| "dispatch s (Open_delete postId) = openDeleteConfirmation postId s"
| "dispatch s Confirm_delete = confirmDelete s"
| "dispatch s Cancel_delete = cancelDelete s"
| "dispatch s (Search v) = searchPosts v s"
| "dispatch s (Timeout e) =
     (case timers s of [] \<Rightarrow> s | t # ts \<Rightarrow> fire e t (s\<lparr>timers := ts\<rparr>))"

definition run :: "blog \<Rightarrow> event list \<Rightarrow> blog" where
  "run s evs = foldl dispatch s evs"

definition calls_savePosts :: "blog \<Rightarrow> event \<Rightarrow> bool" where
  \<comment> \<open>the event, dispatched in \<open>s\<close>, reaches a call of \<^verbatim>\<open>savePosts\<close>\<close>
  "calls_savePosts s ev =
     (case ev of
        Timeout e \<Rightarrow>
          (case timers s of
             [] \<Rightarrow> False
           | Publish title' category' content' # ts \<Rightarrow> True
           | Update postId title' category' content' # ts \<Rightarrow>
               findIndex (\<lambda>p. post_id p = postId) (posts s) \<noteq> None)
      | Confirm_delete \<Rightarrow> (case postIdToDelete s of None \<Rightarrow> False | Some postId \<Rightarrow> postId \<noteq> [])
      | _ \<Rightarrow> False)"

section \<open>The order of first encounter\<close>



section \<open>The scenario of the specification\<close>

text \<open>
  Two posts, \<open>b\<close> published after \<open>a\<close> and so in front of it; a page that has nothing
  stored and shows nothing yet; a clock and a random generator.
\<close>

definition post_a :: post where
  "post_a = \<lparr>post_id = ''a'', title = ''Hello World'', category = ''Tech'', content = ''foo'',
              createdAt = ''2024-01-01T10:00:00.000Z''\<rparr>"

definition post_b :: post where
  "post_b = \<lparr>post_id = ''b'', title = ''Cooking'', category = ''Food'', content = ''bar'',
              createdAt = ''2024-01-02T10:00:00.000Z''\<rparr>"

definition page0 :: blog where
  "page0 = \<lparr>posts = [], postIdToDelete = None, localStorage = (\<lambda>k. None),
             postsContainer = No_posts_available, categoriesList = [], recentPostsList = [],
             notifications = [], submitBtn_disabled = False, updateBtn_disabled = False,
             timers = []\<rparr>"

definition page_ab :: blog where
  "page_ab = page0\<lparr>posts := [post_b, post_a]\<rparr>"

definition env0 :: env where
  "env0 = \<lparr>date_now = 1700000000000, random36 = ''0.abcdefghijk'',
            date_iso = ''2023-11-14T22:13:20.000Z''\<rparr>"

section \<open>Writing the posts as JSON and reading them back\<close>















section \<open>The fields of the page after each function\<close>

lemma savePosts_posts: "posts (savePosts s) = posts s"
  by (simp add: savePosts_def updateRecentPostsList_def updateCategoriesList_def displayPosts_def Let_def)

lemma savePosts_localStorage:
  "localStorage (savePosts s) = (localStorage s)(''blogPosts'' \<mapsto> JSON_stringify (posts s))"
  by (simp add: savePosts_def updateRecentPostsList_def updateCategoriesList_def displayPosts_def Let_def)


lemma savePosts_timers: "timers (savePosts s) = timers s"
  by (simp add: savePosts_def updateRecentPostsList_def updateCategoriesList_def displayPosts_def Let_def)

lemma deletePost_posts:
  "posts (deletePost postId s) = filter (\<lambda>post. post_id post \<noteq> postId) (posts s)"
  by (simp add: deletePost_def showNotification_def savePosts_posts)

lemma deletePost_localStorage:
  "localStorage (deletePost postId s) =
     (localStorage s)(''blogPosts'' \<mapsto> JSON_stringify (filter (\<lambda>post. post_id post \<noteq> postId) (posts s)))"
  by (simp add: deletePost_def showNotification_def savePosts_localStorage savePosts_posts)


lemma handlePostSubmit_valid:
  "trim title_value \<noteq> [] \<Longrightarrow> category_value \<noteq> [] \<Longrightarrow> trim content_value \<noteq> [] \<Longrightarrow>
   handlePostSubmit title_value category_value content_value s
     = s\<lparr>submitBtn_disabled := True,
         timers := timers s @ [Publish (trim title_value) category_value (trim content_value)]\<rparr>"
  by (simp add: handlePostSubmit_def)

lemma handleEditSubmit_valid:
  "trim title_value \<noteq> [] \<Longrightarrow> category_value \<noteq> [] \<Longrightarrow> trim content_value \<noteq> [] \<Longrightarrow>
   handleEditSubmit postId title_value category_value content_value s
     = s\<lparr>updateBtn_disabled := True,
         timers := timers s @ [Update postId (trim title_value) category_value (trim content_value)]\<rparr>"
  by (simp add: handleEditSubmit_def)

lemma findIndex_Some:
  "findIndex P xs = Some i \<Longrightarrow> i < length xs \<and> P (xs ! i) \<and> (\<forall>j<i. \<not> P (xs ! j))"
proof (induction xs arbitrary: i)
  case Nil
  then show ?case by simp
next
  case (Cons x xs)
  show ?case
  proof (cases "P x")
    case True
    with Cons.prems show ?thesis by simp
  next
    case False
    with Cons.prems obtain k where k: "findIndex P xs = Some k" "i = Suc k" by auto
    from Cons.IH [OF k(1)] False k(2) show ?thesis
      by (auto simp: less_Suc_eq_0_disj)
  qed
qed

lemma findIndex_None: "(findIndex P xs = None) = (\<forall>x\<in>set xs. \<not> P x)"
  by (induction xs) auto

lemma update_absent:
  "postId \<notin> post_id ` set (posts s) \<Longrightarrow> update postId title' category' content' s = s"
proof -
  assume "postId \<notin> post_id ` set (posts s)"
  then have "findIndex (\<lambda>p. post_id p = postId) (posts s) = None"
    by (auto simp: findIndex_None)
  then show ?thesis by (simp add: update_def)
qed

lemma update_posts:
  "findIndex (\<lambda>p. post_id p = postId) (posts s) = Some i \<Longrightarrow>
   posts (update postId title' category' content' s)
     = (posts s)[i := (posts s ! i)\<lparr>title := title', category := category', content := content'\<rparr>]"
  by (simp add: update_def Let_def showNotification_def savePosts_posts)




lemma publish_posts:
  "posts (publish e title' category' content' s)
     = \<lparr>post_id = generateUniqueId e, title = title', category = category', content = content',
        createdAt = date_iso e\<rparr> # posts s"
  by (simp add: publish_def Let_def showNotification_def savePosts_posts)

lemma publish_localStorage:
  "localStorage (publish e title' category' content' s)
     = (localStorage s)(''blogPosts'' \<mapsto> JSON_stringify (posts (publish e title' category' content' s)))"
  by (simp add: publish_def Let_def showNotification_def savePosts_posts savePosts_localStorage)



lemma dispatch_keeps:
  assumes "\<not> calls_savePosts s ev"
  shows "posts (dispatch s ev) = posts s \<and> localStorage (dispatch s ev) = localStorage s"
proof (cases ev)
  case (Timeout e)
  show ?thesis
  proof (cases "timers s")
    case Nil
    with Timeout show ?thesis by simp
  next
    case (Cons t ts)
    show ?thesis
    proof (cases t)
      case (Publish title' category' content')
      with assms Timeout Cons show ?thesis by (simp add: calls_savePosts_def)
    next
      case (Update postId title' category' content')
      with assms Timeout Cons show ?thesis by (simp add: calls_savePosts_def update_def)
    qed
  qed
next
  case Confirm_delete
  with assms show ?thesis
    by (auto simp: calls_savePosts_def confirmDelete_def split: option.splits)
next
  case (Search v)
  then show ?thesis by (simp add: searchPosts_def displayPosts_def Let_def)
qed (simp_all add: handlePostSubmit_def handleEditSubmit_def showNotification_def Let_def
      openDeleteConfirmation_def cancelDelete_def)


lemma publish_front:
  "posts (publish e title' category' content' s)
      = \<lparr>post_id = generateUniqueId e, title = title', category = category', content = content',
         createdAt = date_iso e\<rparr> # posts s
   \<and> localStorage (publish e title' category' content' s) ''blogPosts''
      = Some (JSON_stringify (posts (publish e title' category' content' s)))"
  by (simp add: publish_posts publish_localStorage)

section \<open>Strings that contain a string\<close>




section \<open>Counting the categories\<close>











section \<open>The claims\<close>

subsection \<open>Loading\<close>




subsection \<open>Creating a post\<close>

text \<open>
  C2. The callback of \<^verbatim>\<open>handlePostSubmit\<close> puts the new post, with the title, the
  category and the content it was given and the time of the clock, in front of the
  posts there were, and stores the whole collection (\<open>publish_front\<close> above). The claim
  adds that the id of the new post differs from every id in the collection, as the
  comment of \<^verbatim>\<open>generateUniqueId\<close> promises (\<^verbatim>\<open>@returns {string} - Unique ID\<close>).
  \<^verbatim>\<open>generateUniqueId\<close> does not look at the collection: with the clock at
  1700000000000 and a random number that starts \<^verbatim>\<open>0.abcde\<close> in base 36 it answers
  \<^verbatim>\<open>loyw3v28abcde\<close>, and a collection that holds a post of this id then holds two.
\<close>

theorem publish_duplicate_id:
  "generateUniqueId env0 = ''loyw3v28abcde''
   \<and> map post_id (posts (publish env0 ''Again'' ''Tech'' ''text''
        (page0\<lparr>posts := [post_a\<lparr>post_id := ''loyw3v28abcde''\<rparr>]\<rparr>)))
      = [''loyw3v28abcde'', ''loyw3v28abcde'']"
proof -
  have g: "generateUniqueId env0 = ''loyw3v28abcde''"
    by (simp add: generateUniqueId_def env0_def digit36_def)
  then show ?thesis by (simp add: publish_posts post_a_def)
qed

subsection \<open>Saving and loading again\<close>



subsection \<open>Editing a post\<close>

text \<open>
  C4. When the collection holds a post with the given id, the callback of
  \<^verbatim>\<open>handleEditSubmit\<close> replaces the title, the category and the content of one post, the
  first with that id; the id and \<^verbatim>\<open>createdAt\<close> of that post, its position, the length of
  the collection and every other post stay as they were.
\<close>

theorem update_replaces_three_fields:
  assumes "postId \<in> post_id ` set (posts s)"
  shows "\<exists>i<length (posts s).
      post_id (posts s ! i) = postId
    \<and> posts (update postId title' category' content' s)
        = (posts s)[i := (posts s ! i)\<lparr>title := title', category := category', content := content'\<rparr>]
    \<and> length (posts (update postId title' category' content' s)) = length (posts s)
    \<and> post_id (posts (update postId title' category' content' s) ! i) = post_id (posts s ! i)
    \<and> createdAt (posts (update postId title' category' content' s) ! i) = createdAt (posts s ! i)
    \<and> title (posts (update postId title' category' content' s) ! i) = title'
    \<and> category (posts (update postId title' category' content' s) ! i) = category'
    \<and> content (posts (update postId title' category' content' s) ! i) = content'
    \<and> (\<forall>j<length (posts s). j \<noteq> i \<longrightarrow>
          posts (update postId title' category' content' s) ! j = posts s ! j)"
proof -
  from assms have "findIndex (\<lambda>p. post_id p = postId) (posts s) \<noteq> None"
    by (auto simp: findIndex_None)
  then obtain i where i: "findIndex (\<lambda>p. post_id p = postId) (posts s) = Some i" by auto
  from findIndex_Some [OF i] have "i < length (posts s)" "post_id (posts s ! i) = postId"
    by simp_all
  with update_posts [OF i, of title' category' content'] show ?thesis
    by (intro exI [of _ i]) simp
qed

text \<open>
  The scenario: editing \<open>a\<close>, the second of the two posts, leaves \<open>b\<close> in front of it and
  changes the title and the content of \<open>a\<close> only.
\<close>

theorem update_replaces_three_fields_witness:
  "''a'' \<in> post_id ` set (posts page_ab)
   \<and> posts (update ''a'' ''New Title'' ''Tech'' ''new content'' page_ab)
       = [post_b, post_a\<lparr>title := ''New Title'', content := ''new content''\<rparr>]"
proof -
  have h: "''a'' \<in> post_id ` set (posts page_ab)"
    by (simp add: page_ab_def page0_def post_a_def post_b_def)
  from update_replaces_three_fields [OF h, of "''New Title''" "''Tech''" "''new content''"]
  obtain i where "i < length (posts page_ab)" "post_id (posts page_ab ! i) = ''a''"
    and eq: "posts (update ''a'' ''New Title'' ''Tech'' ''new content'' page_ab)
        = (posts page_ab)[i := (posts page_ab ! i)
            \<lparr>title := ''New Title'', category := ''Tech'', content := ''new content''\<rparr>]"
    by blast
  then have "i = 1"
    by (cases i) (simp_all add: page_ab_def page0_def post_a_def post_b_def)
  with eq h show ?thesis
    by (simp add: page_ab_def page0_def post_a_def post_b_def)
qed

text \<open>
  C5. The claim: for an id that no post has, the update is reported as not found. The
  callback returns at \<^verbatim>\<open>if (postIndex === -1) return;\<close> and the page after it is the
  page before it: no notification, nothing reported.
\<close>

theorem update_absent_silent_counterexample:
  "''zzz'' \<notin> post_id ` set (posts page_ab)
   \<and> update ''zzz'' ''New Title'' ''Tech'' ''new content'' page_ab = page_ab
   \<and> notifications (update ''zzz'' ''New Title'' ''Tech'' ''new content'' page_ab) = []"
  using update_absent [of "''zzz''" page_ab]
  by (simp add: page_ab_def page0_def post_a_def post_b_def)

text \<open>
  C5, as the script has it: for an id that no post has, the callback changes nothing,
  neither the collection nor the stored text nor the notifications; run from the timer
  queue it leaves the page as it was but for the queue, so the update button stays
  disabled.
\<close>

theorem update_absent_unchanged:
  assumes "postId \<notin> post_id ` set (posts s)"
  shows "update postId title' category' content' s = s
    \<and> (timers s = Update postId title' category' content' # ts \<longrightarrow>
         dispatch s (Timeout e) = s\<lparr>timers := ts\<rparr>)"
proof -
  have "update postId title' category' content' (s\<lparr>timers := ts\<rparr>) = s\<lparr>timers := ts\<rparr>"
    using assms by (intro update_absent) simp
  then show ?thesis
    using assms by (simp add: update_absent)
qed

theorem update_absent_unchanged_witness:
  "''zzz'' \<notin> post_id ` set (posts page_ab)
   \<and> update ''zzz'' ''New Title'' ''Tech'' ''new content'' page_ab = page_ab
   \<and> dispatch (page_ab\<lparr>updateBtn_disabled := True,
                  timers := [Update ''zzz'' ''New Title'' ''Tech'' ''new content'']\<rparr>) (Timeout env0)
       = page_ab\<lparr>updateBtn_disabled := True, timers := []\<rparr>"
proof -
  have h: "''zzz'' \<notin> post_id ` set (posts page_ab)"
    by (simp add: page_ab_def page0_def post_a_def post_b_def)
  have h': "''zzz'' \<notin> post_id ` set (posts (page_ab\<lparr>updateBtn_disabled := True,
                  timers := [Update ''zzz'' ''New Title'' ''Tech'' ''new content'']\<rparr>))"
    using h by simp
  show ?thesis
    using h update_absent_unchanged [OF h, of "''New Title''" "''Tech''" "''new content''"]
      update_absent_unchanged [OF h', of "''New Title''" "''Tech''" "''new content''" "[]" env0]
    by simp
qed

subsection \<open>Rejecting an empty field\<close>

text \<open>
  C6. The claim: a category that is empty after trimming is rejected. The two
  listeners trim the title and the content, not the category: a category of one space
  passes, the post is published with it, and the edit is queued with it.
\<close>

theorem blank_category_accepted_counterexample:
  "trim '' '' = []
   \<and> posts (run page0 [Submit_post ''T'' '' '' ''C'', Timeout env0])
       = [\<lparr>post_id = ''loyw3v28abcde'', title = ''T'', category = '' '', content = ''C'',
            createdAt = ''2023-11-14T22:13:20.000Z''\<rparr>]
   \<and> timers (run page_ab [Submit_edit ''a'' ''T'' '' '' ''C'']) = [Update ''a'' ''T'' '' '' ''C'']"
proof -
  have t: "trim '' '' = []" "trim ''T'' = ''T''" "trim ''C'' = ''C''"
    by (simp_all add: trim_def isWhiteSpace_def)
  have g: "generateUniqueId env0 = ''loyw3v28abcde''"
    by (simp add: generateUniqueId_def env0_def digit36_def)
  have r: "run page0 [Submit_post ''T'' '' '' ''C'']
      = page0\<lparr>submitBtn_disabled := True, timers := [Publish ''T'' '' '' ''C'']\<rparr>"
    by (simp add: run_def handlePostSubmit_def t page0_def)
  have "run page0 [Submit_post ''T'' '' '' ''C'', Timeout env0]
      = dispatch (run page0 [Submit_post ''T'' '' '' ''C'']) (Timeout env0)"
    by (simp add: run_def)
  then have p: "posts (run page0 [Submit_post ''T'' '' '' ''C'', Timeout env0])
       = [\<lparr>post_id = ''loyw3v28abcde'', title = ''T'', category = '' '', content = ''C'',
            createdAt = ''2023-11-14T22:13:20.000Z''\<rparr>]"
    by (simp add: r publish_posts g) (simp add: page0_def env0_def)
  have u: "timers (run page_ab [Submit_edit ''a'' ''T'' '' '' ''C'']) = [Update ''a'' ''T'' '' '' ''C'']"
    by (simp add: run_def handleEditSubmit_def t page_ab_def page0_def)
  from t(1) p u show ?thesis by simp
qed

text \<open>
  C6, as the script has it: when the title or the content is empty after trimming, or
  the category is empty as it stands, both listeners show \<^verbatim>\<open>Please fill all fields\<close>
  and do nothing else: the collection, \<^verbatim>\<open>localStorage\<close> and the timer queue are as
  before, so no callback will change them later.
\<close>

theorem empty_field_rejected:
  assumes "trim title_value = [] \<or> category_value = [] \<or> trim content_value = []"
  shows "handlePostSubmit title_value category_value content_value s
        = s\<lparr>notifications := notifications s @ [(''Please fill all fields'', ''error'')]\<rparr>
    \<and> handleEditSubmit postId title_value category_value content_value s
        = s\<lparr>notifications := notifications s @ [(''Please fill all fields'', ''error'')]\<rparr>
    \<and> posts (handlePostSubmit title_value category_value content_value s) = posts s
    \<and> localStorage (handlePostSubmit title_value category_value content_value s) = localStorage s
    \<and> timers (handlePostSubmit title_value category_value content_value s) = timers s
    \<and> posts (handleEditSubmit postId title_value category_value content_value s) = posts s
    \<and> localStorage (handleEditSubmit postId title_value category_value content_value s) = localStorage s
    \<and> timers (handleEditSubmit postId title_value category_value content_value s) = timers s"
  using assms by (auto simp: handlePostSubmit_def handleEditSubmit_def showNotification_def)

theorem empty_field_rejected_witness:
  "(trim ''   '' = [] \<or> ''Tech'' = [] \<or> trim ''foo'' = [])
   \<and> handlePostSubmit ''   '' ''Tech'' ''foo'' page_ab
       = page_ab\<lparr>notifications := [(''Please fill all fields'', ''error'')]\<rparr>
   \<and> handleEditSubmit ''a'' ''   '' ''Tech'' ''foo'' page_ab
       = page_ab\<lparr>notifications := [(''Please fill all fields'', ''error'')]\<rparr>"
proof -
  have h: "trim ''   '' = [] \<or> ''Tech'' = [] \<or> trim ''foo'' = []"
    by (simp add: trim_def isWhiteSpace_def)
  have n: "notifications page_ab = []" by (simp add: page_ab_def page0_def)
  from empty_field_rejected [OF h, of page_ab "''a''"] h n show ?thesis by simp
qed

subsection \<open>Deleting a post\<close>




subsection \<open>Searching\<close>




subsection \<open>The list of categories\<close>




subsection \<open>Deleting every post of an id\<close>

text \<open>
  C10. After \<^verbatim>\<open>deletePost\<close> the collection is the old one without the posts of the given
  id, every one of them: the other posts stay, in their order; no post of that id is
  left; and the text stored under \<^verbatim>\<open>blogPosts\<close> is that of the new collection, on every
  call.
\<close>

theorem deletePost_removes_every_match:
  "posts (deletePost postId s) = filter (\<lambda>post. post_id post \<noteq> postId) (posts s)
   \<and> postId \<notin> post_id ` set (posts (deletePost postId s))
   \<and> localStorage (deletePost postId s) ''blogPosts''
       = Some (JSON_stringify (posts (deletePost postId s)))"
  by (auto simp add: deletePost_posts deletePost_localStorage)

theorem deletePost_removes_every_match_witness:
  "posts (deletePost ''a'' (page_ab\<lparr>posts := [post_a, post_b, post_a]\<rparr>)) = [post_b]
   \<and> localStorage (deletePost ''zzz'' page_ab) ''blogPosts'' = Some (JSON_stringify [post_b, post_a])"
  using deletePost_removes_every_match [of "''a''" "page_ab\<lparr>posts := [post_a, post_b, post_a]\<rparr>"]
    deletePost_removes_every_match [of "''zzz''" page_ab]
  by (simp add: page_ab_def page0_def post_a_def post_b_def)

end
